theory Spec2Isabelle
  imports Main "HOL-Library.Word"
begin

section \<open>JavaScript values and buffers\<close>

text \<open>
  The DHT client of \<^verbatim>\<open>src/client.js\<close> works on decoded bencode messages: integers are
  JavaScript numbers, byte strings are Buffers, lists are arrays and dictionaries are
  plain objects. Text produced by the client itself (\<^verbatim>\<open>'r'\<close>, \<^verbatim>\<open>'e'\<close>, error messages,
  hex strings) is a JavaScript string. A missing property reads as \<^verbatim>\<open>undefined\<close>.
\<close>

type_synonym byte = "8 word"
type_synonym bytes = "byte list"

datatype jsval =
    Undefined
  | Num int
  | Str string
  | Buf bytes
  | Arr "jsval list"
  | Obj "(string \<times> jsval) list"

datatype js_error = TypeError | ReferenceError | RangeError | Error

text \<open>JavaScript truthiness: objects (also an empty Buffer or array) are truthy.\<close>

fun truthy :: "jsval \<Rightarrow> bool" where
  "truthy Undefined = False"
| "truthy (Num n) = (n \<noteq> 0)"
| "truthy (Str s) = (s \<noteq> [])"
| "truthy (Buf b) = True"
| "truthy (Arr xs) = True"
| "truthy (Obj kvs) = True"

text \<open>\<^verbatim>\<open>a && b\<close>: the left operand when it is falsy, the right one otherwise.\<close>

definition js_and :: "jsval \<Rightarrow> jsval \<Rightarrow> jsval" where
  "js_and a b = (if truthy a then b else a)"

text \<open>
  Reading one of the message keys (\<^verbatim>\<open>t\<close>, \<^verbatim>\<open>a\<close>, \<^verbatim>\<open>r\<close>, \<^verbatim>\<open>e\<close>, \<^verbatim>\<open>info_hash\<close>, \<^verbatim>\<open>token\<close>,
  \<^verbatim>\<open>port\<close>, \<^verbatim>\<open>implied_port\<close>) from a value. Numbers, Buffers and arrays have no property of
  these names. An object is the list of its properties, each key once. The handlers below
  read a property only from a value they have found truthy, so the JavaScript TypeError of
  reading from \<^verbatim>\<open>undefined\<close> does not arise.
\<close>

fun get_prop :: "jsval \<Rightarrow> string \<Rightarrow> jsval" where
  "get_prop (Obj kvs) k = (case map_of kvs k of None \<Rightarrow> Undefined | Some v \<Rightarrow> v)"
| "get_prop v k = Undefined"

text \<open>\<^verbatim>\<open>buffer-equal\<close>: undefined (falsy) unless both arguments are Buffers.\<close>

fun bufferEqual :: "jsval \<Rightarrow> jsval \<Rightarrow> bool" where
  "bufferEqual (Buf a) (Buf b) = (a = b)"
| "bufferEqual x y = False"

text \<open>Lower-case hexadecimal text of a Buffer, \<^verbatim>\<open>buf.toString('hex')\<close>.\<close>

definition hex_digit :: "nat \<Rightarrow> char" where
  "hex_digit n = ''0123456789abcdef'' ! (n mod 16)"

definition hex_of :: "bytes \<Rightarrow> string" where
  "hex_of bs = concat (map (\<lambda>b. [hex_digit (unat b div 16), hex_digit (unat b mod 16)]) bs)"

text \<open>\<^verbatim>\<open>idToHexString\<close> (lines 1020-1026): a Buffer becomes its hex text, anything else is returned as it is.\<close>

fun idToHexString :: "jsval \<Rightarrow> jsval" where
  "idToHexString (Buf b) = Str (hex_of b)"
| "idToHexString v = v"

text \<open>
  \<^verbatim>\<open>idToBuffer\<close> (lines 1007-1013). For anything but a Buffer it calls
  \<^verbatim>\<open>new Buffer(id, 'hex')\<close> of the platform, taken here as the parameter \<open>newBuffer\<close>
  (\<open>None\<close> when the constructor throws).
\<close>

fun idToBuffer :: "(jsval \<Rightarrow> bytes option) \<Rightarrow> jsval \<Rightarrow> bytes option" where
  "idToBuffer newBuffer (Buf b) = Some b"
| "idToBuffer newBuffer v = newBuffer v"

text \<open>Decimal text of a number, as string concatenation with a number produces it.\<close>

fun decimal :: "nat \<Rightarrow> string" where
  "decimal n = (if n < 10 then [''0123456789'' ! n]
                else decimal (n div 10) @ [''0123456789'' ! (n mod 10)])"

declare decimal.simps [simp del]

definition show_int :: "int \<Rightarrow> string" where
  "show_int i = (if i < 0 then CHR ''-'' # decimal (nat (- i)) else decimal (nat i))"

text \<open>The bytes of a host name, \<^verbatim>\<open>new Buffer(host, 'utf8')\<close>.\<close>

definition utf8 :: "string \<Rightarrow> bytes" where
  "utf8 s = map of_char s"

section \<open>The node\<close>

record contact =
  node_id :: bytes
  addr :: string

text \<open>
  A pending request of \<^verbatim>\<open>self.transactions[addr]\<close>: the array of slots indexed by
  transaction id (\<open>live\<close> lists the ids whose slot holds \<^verbatim>\<open>{cb, timeout}\<close>; any other
  slot is \<^verbatim>\<open>null\<close> or was never set) and its \<^verbatim>\<open>nextTransactionId\<close>.
\<close>

record reqs =
  nextTransactionId :: nat
  live :: "nat list"

text \<open>How a resolver was invoked: with a response, with an error reply, or by the timeout.\<close>

datatype completion = Reply jsval | Failed jsval | TimedOut

text \<open>
  What the node does to the outside: a datagram given to the socket (host, port, message
  before bencoding), an event emitted, and the calls that start listening.
\<close>

datatype effect =
    Sent string int jsval
  | EmitNode string bytes
  | EmitPeer string jsval
  | EmitWarning jsval
  | Bind int
  | GetPort

record dht =
  nodeId :: bytes
  listening :: bool
  closed :: bool
  port :: "int option"
  nodes :: "contact list option"
  peers :: "(string \<rightharpoonup> bytes list) option"
  addrData :: "(string \<rightharpoonup> string \<times> int) option"
  transactions :: "string \<rightharpoonup> reqs"
  secrets :: "(bytes \<times> bytes) option"
  timers :: "(string \<times> nat) list"
  fired :: "(string \<times> nat) list"
  calls :: "(string \<times> nat \<times> completion) list"
  rotateInterval :: bool
  bootstrapTimeout :: bool
  socket_open :: bool
  log :: "effect list"

text \<open>
  \<open>port\<close>, \<open>nodes\<close>, \<open>peers\<close> and \<open>addrData\<close> are \<open>None\<close> when the field is \<^verbatim>\<open>null\<close>;
  \<open>secrets\<close> is \<open>None\<close> before the first call of \<^verbatim>\<open>_rotateSecrets\<close>, otherwise the
  pair (current, previous). \<open>timers\<close> holds the armed transaction timers, \<open>fired\<close> the
  transactions whose \<^verbatim>\<open>once\<close> wrapper has run, and \<open>calls\<close> every invocation of a
  resolver, each named by the address and transaction id it was registered under.
\<close>

text \<open>
  The result of an operation: it returns, leaving a state; it throws, leaving a state;
  or it reaches JavaScript behaviour this development does not cover: the coercion of a
  value of an unexpected kind, named at each place where it arises.
\<close>

datatype outcome = Done dht | Raised js_error dht | Uncovered

section \<open>Tokens (lines 897-938)\<close>

text \<open>
  The digest \<open>sha1\<close> comes from the rusha library and is a parameter. The values that
  \<^verbatim>\<open>createSecret\<close> draws from the random generator are the arguments \<open>c1\<close> and \<open>c2\<close> of
  \<open>rotateSecrets\<close>; the second is drawn only when the secrets are initialised.
\<close>

definition generateToken :: "(bytes \<Rightarrow> bytes) \<Rightarrow> dht \<Rightarrow> string \<Rightarrow> bytes option \<Rightarrow> js_error + bytes" where
  "generateToken sha1 st host secret =
     (case secret of
        Some s \<Rightarrow> Inr (sha1 (utf8 host @ s))
      | None \<Rightarrow>
          (case secrets st of
             None \<Rightarrow> Inl TypeError
           | Some (s0, s1) \<Rightarrow> Inr (sha1 (utf8 host @ s0))))"

definition isValidToken :: "(bytes \<Rightarrow> bytes) \<Rightarrow> dht \<Rightarrow> jsval \<Rightarrow> string \<Rightarrow> js_error + bool" where
  "isValidToken sha1 st token host =
     (case secrets st of
        None \<Rightarrow> Inl TypeError
      | Some (s0, s1) \<Rightarrow>
          (case generateToken sha1 st host (Some s0) of
             Inl e \<Rightarrow> Inl e
           | Inr validToken0 \<Rightarrow>
               (case generateToken sha1 st host (Some s1) of
                  Inl e \<Rightarrow> Inl e
                | Inr validToken1 \<Rightarrow>
                    Inr (bufferEqual token (Buf validToken0) \<or> bufferEqual token (Buf validToken1)))))"

definition rotateSecrets :: "bytes \<Rightarrow> bytes \<Rightarrow> dht \<Rightarrow> dht" where
  "rotateSecrets c1 c2 st =
     (case secrets st of
        None \<Rightarrow> st\<lparr>secrets := Some (c1, c2)\<rparr>
      | Some (s0, s1) \<Rightarrow> st\<lparr>secrets := Some (c1, s0)\<rparr>)"

section \<open>Sending (lines 519-529 and 819-836)\<close>

text \<open>
  \<^verbatim>\<open>bncode.encode\<close> (line 527) cannot encode \<^verbatim>\<open>undefined\<close>: on a message that holds it
  anywhere, as the value of a key or as a list element, the library dereferences it and a
  TypeError leaves \<^verbatim>\<open>_send\<close> before anything is given to the socket.
\<close>

fun encodable :: "jsval \<Rightarrow> bool" where
  "encodable Undefined = False"
| "encodable (Num n) = True"
| "encodable (Str s) = True"
| "encodable (Buf b) = True"
| "encodable (Arr xs) = list_all encodable xs"
| "encodable (Obj kvs) = list_all encodable (map snd kvs)"

text \<open>
  \<^verbatim>\<open>_send\<close> drops the message unless \<^verbatim>\<open>port > 0 && port < 65535\<close>, then encodes it and
  gives it to the socket. The port is a number when it is the source port of a datagram;
  in \<^verbatim>\<open>_onAnnouncePeer\<close> it can be any decoded value. \<^verbatim>\<open>undefined\<close> and a dictionary
  compare as NaN, so the message is dropped; a Buffer, an array or a string would be
  coerced through its text, which is not covered. A handler runs on a message event of the
  socket, so the socket is open whenever \<^verbatim>\<open>_send\<close> is reached from one.
\<close>

definition send :: "dht \<Rightarrow> string \<Rightarrow> jsval \<Rightarrow> jsval \<Rightarrow> outcome" where
  "send st host p message =
     (case p of
        Num n \<Rightarrow>
          if \<not> (0 < n \<and> n < 65535) then Done st
          else if \<not> encodable message then Raised TypeError st
          else Done (st\<lparr>log := log st @ [Sent host n message]\<rparr>)
      | Undefined \<Rightarrow> Done st
      | Obj kvs \<Rightarrow> Done st
      | Str s \<Rightarrow> Uncovered
      | Buf b \<Rightarrow> Uncovered
      | Arr xs \<Rightarrow> Uncovered)"

fun isBuffer :: "jsval \<Rightarrow> bool" where
  "isBuffer (Buf b) = True"
| "isBuffer v = False"

text \<open>
  \<^verbatim>\<open>transactionIdToBuffer\<close> (lines 992-1000): a Buffer is returned as it is; a number is
  written with \<^verbatim>\<open>writeUInt16BE\<close>, which throws unless it is an integer from 0 to 65535
  (the class of the error differs between Node versions). What \<^verbatim>\<open>writeUInt16BE\<close> does
  with a value that is not a number differs between Node versions too and is not covered
  (\<open>None\<close>).
\<close>

fun transactionIdToBuffer :: "jsval \<Rightarrow> (js_error + bytes) option" where
  "transactionIdToBuffer (Buf b) = Some (Inr b)"
| "transactionIdToBuffer (Num n) =
     (if 0 \<le> n \<and> n \<le> 65535 then Some (Inr [of_int (n div 256), of_int (n mod 256)])
      else Some (Inl RangeError))"
| "transactionIdToBuffer v = None"

definition error_message :: "int \<Rightarrow> string \<Rightarrow> (string \<times> jsval) list" where
  "error_message code message = [(''y'', Str ''e''), (''e'', Arr [Num code, Str message])]"

definition sendError :: "dht \<Rightarrow> string \<Rightarrow> jsval \<Rightarrow> jsval \<Rightarrow> int \<Rightarrow> string \<Rightarrow> outcome" where
  "sendError st host p transactionId code message =
     (if truthy transactionId \<and> \<not> isBuffer transactionId then
        (case transactionIdToBuffer transactionId of
           None \<Rightarrow> Uncovered
         | Some (Inl e) \<Rightarrow> Raised e st
         | Some (Inr b) \<Rightarrow> send st host p (Obj (error_message code message @ [(''t'', Buf b)])))
      else if truthy transactionId then
        send st host p (Obj (error_message code message @ [(''t'', transactionId)]))
      else send st host p (Obj (error_message code message)))"

section \<open>The announce handler (lines 775-809)\<close>

text \<open>
  Lines 794-796 assign the parameter \<^verbatim>\<open>port\<close> again: the source port of the datagram
  unless \<^verbatim>\<open>a.implied_port\<close> is exactly the number 0, the \<^verbatim>\<open>port\<close> argument of the
  query otherwise.
\<close>

definition effective_port :: "int \<Rightarrow> jsval \<Rightarrow> jsval" where
  "effective_port src_port a =
     (if get_prop a ''implied_port'' \<noteq> Num 0 then Num src_port else get_prop a ''port'')"

definition acknowledgement :: "dht \<Rightarrow> jsval \<Rightarrow> jsval" where
  "acknowledgement st message =
     Obj [(''t'', get_prop message ''t''), (''y'', Str ''r''), (''r'', Obj [(''id'', Buf (nodeId st))])]"

definition onAnnouncePeer :: "(bytes \<Rightarrow> bytes) \<Rightarrow> dht \<Rightarrow> string \<Rightarrow> int \<Rightarrow> jsval \<Rightarrow> outcome" where
  "onAnnouncePeer sha1 st host src_port message =
     (let a = get_prop message ''a'';
          infoHash = idToHexString (js_and a (get_prop a ''info_hash''))
      in if \<not> truthy infoHash then
           sendError st host (Num src_port) (get_prop message ''t'') 203
             ''`announce_peer` missing required `a.info_hash` field''
         else
           (case isValidToken sha1 st (js_and a (get_prop a ''token'')) host of
              Inl e \<Rightarrow> Raised e st
            | Inr valid \<Rightarrow>
                if \<not> valid then
                  sendError st host (Num src_port) (get_prop message ''t'') 203
                    ''cannot `announce_peer` with bad token''
                else send st host (effective_port src_port a) (acknowledgement st message)))"

section \<open>The peer store (lines 260-304)\<close>

text \<open>
  \<^verbatim>\<open>self.peers\<close> and the \<^verbatim>\<open>queried\<close> of a lookup are plain objects. Reading a key that
  the object does not hold itself but that names a member of \<^verbatim>\<open>Object.prototype\<close> gives
  that member, a function or an object, which is truthy and has no array methods.
\<close>

definition prototype_keys :: "string list" where
  "prototype_keys =
     [''constructor'', ''toString'', ''toLocaleString'', ''valueOf'', ''hasOwnProperty'',
      ''isPrototypeOf'', ''propertyIsEnumerable'', ''__proto__'', ''__defineGetter__'',
      ''__defineSetter__'', ''__lookupGetter__'', ''__lookupSetter__'']"

text \<open>
  \<^verbatim>\<open>string2compact\<close> is a library function, the parameter \<open>string2compact\<close> here; it
  returns the compact form or throws an error of the library's. The store is keyed by the
  hex text of the info-hash; a key that is neither a Buffer nor a string is not covered.
  Under a key inherited from \<^verbatim>\<open>Object.prototype\<close> the value found is not an array, and
  calling its \<^verbatim>\<open>some\<close> throws a TypeError.
\<close>

definition addPeer :: "(string \<Rightarrow> js_error + bytes) \<Rightarrow> dht \<Rightarrow> string \<Rightarrow> jsval \<Rightarrow> outcome" where
  "addPeer string2compact st a infoHash =
     (case peers st of
        None \<Rightarrow> Raised TypeError st
      | Some m \<Rightarrow>
          (case idToHexString infoHash of
             Str k \<Rightarrow>
               (case m k of
                  None \<Rightarrow>
                    if k \<in> set prototype_keys then
                      (case string2compact a of
                         Inl e \<Rightarrow> Raised e st
                       | Inr compactPeerInfo \<Rightarrow> Raised TypeError st)
                    else
                      (case string2compact a of
                         Inl e \<Rightarrow> Raised e (st\<lparr>peers := Some (m(k \<mapsto> []))\<rparr>)
                       | Inr compactPeerInfo \<Rightarrow>
                           Done (st\<lparr>peers := Some (m(k \<mapsto> [compactPeerInfo])),
                                    log := log st @ [EmitPeer a (Str k)]\<rparr>))
                | Some ps \<Rightarrow>
                    (case string2compact a of
                       Inl e \<Rightarrow> Raised e st
                     | Inr compactPeerInfo \<Rightarrow>
                         Done (st\<lparr>peers := Some (m(k \<mapsto>
                                      (if compactPeerInfo \<in> set ps then ps
                                       else ps @ [compactPeerInfo]))),
                                  log := log st @ [EmitPeer a (Str k)]\<rparr>)))
           | _ \<Rightarrow> Uncovered))"

text \<open>
  The callback of \<^verbatim>\<open>peers.some\<close> in \<^verbatim>\<open>removePeer\<close>: at the first peer equal to the
  compact form it evaluates \<^verbatim>\<open>peers.splice(removeIndex, 1)\<close>. No variable
  \<^verbatim>\<open>removeIndex\<close> is declared anywhere (the callback's parameter is \<^verbatim>\<open>index\<close>), so
  evaluating the argument throws a ReferenceError before \<^verbatim>\<open>splice\<close> is called.
\<close>

fun remove_scan :: "bytes list \<Rightarrow> bytes \<Rightarrow> js_error option" where
  "remove_scan [] compactPeerInfo = None"
| "remove_scan (peer # rest) compactPeerInfo =
     (if peer = compactPeerInfo then Some ReferenceError else remove_scan rest compactPeerInfo)"

definition removePeer :: "(string \<Rightarrow> js_error + bytes) \<Rightarrow> dht \<Rightarrow> jsval \<Rightarrow> string \<Rightarrow> outcome" where
  "removePeer string2compact st infoHash a =
     (case peers st of
        None \<Rightarrow> Raised TypeError st
      | Some m \<Rightarrow>
          (case idToHexString infoHash of
             Str k \<Rightarrow>
               (case m k of
                  None \<Rightarrow>
                    if k \<in> set prototype_keys then
                      (case string2compact a of
                         Inl e \<Rightarrow> Raised e st
                       | Inr compactPeerInfo \<Rightarrow> Raised TypeError st)
                    else Done st
                | Some ps \<Rightarrow>
                    (case string2compact a of
                       Inl e \<Rightarrow> Raised e st
                     | Inr compactPeerInfo \<Rightarrow>
                         (case remove_scan ps compactPeerInfo of
                            Some e \<Rightarrow> Raised e st
                          | None \<Rightarrow> Done st)))
           | _ \<Rightarrow> Uncovered))"

section \<open>Compact node info (lines 957-970)\<close>

text \<open>
  \<^verbatim>\<open>compact2string\<close> of the library: the text \<^verbatim>\<open>a.b.c.d:port\<close> of a six-byte Buffer; it
  throws (\<open>None\<close>) on a Buffer of another length. Later versions of the library also
  accept eighteen bytes, which \<open>parseNodeInfo\<close> never passes: its slices have at most six.
\<close>

definition compact_text :: "bytes \<Rightarrow> string" where
  "compact_text buf =
     decimal (unat (buf ! 0)) @ ''.'' @ decimal (unat (buf ! 1)) @ ''.'' @
     decimal (unat (buf ! 2)) @ ''.'' @ decimal (unat (buf ! 3)) @ '':'' @
     decimal (256 * unat (buf ! 4) + unat (buf ! 5))"

definition compact2string :: "bytes \<Rightarrow> string option" where
  "compact2string buf = (if length buf = 6 then Some (compact_text buf) else None)"

text \<open>\<^verbatim>\<open>buf.slice(i, j)\<close> for \<open>i \<le> j\<close>: the bounds are clamped to the Buffer.\<close>

definition buf_slice :: "bytes \<Rightarrow> nat \<Rightarrow> nat \<Rightarrow> bytes" where
  "buf_slice buf i j = take (j - i) (drop i buf)"

function parseNodeInfo_from :: "bytes \<Rightarrow> nat \<Rightarrow> contact list \<Rightarrow> contact list" where
  "parseNodeInfo_from nodeInfo i contacts =
     (if i < length nodeInfo then
        (case compact2string (buf_slice nodeInfo (i + 20) (i + 26)) of
           None \<Rightarrow> contacts
         | Some a \<Rightarrow>
             parseNodeInfo_from nodeInfo (i + 26)
               (contacts @ [\<lparr>node_id = buf_slice nodeInfo i (i + 20), addr = a\<rparr>]))
      else contacts)"
  by pat_completeness auto
termination
  by (relation "measure (\<lambda>(nodeInfo, i, contacts). length nodeInfo - i)") auto

declare parseNodeInfo_from.simps [simp del]

definition parseNodeInfo :: "bytes \<Rightarrow> contact list" where
  "parseNodeInfo nodeInfo = parseNodeInfo_from nodeInfo 0 []"

text \<open>The contact held by the \<open>k\<close>-th 26-byte record of a compact node info field.\<close>

definition contact_at :: "bytes \<Rightarrow> nat \<Rightarrow> contact" where
  "contact_at nodeInfo k =
     \<lparr>node_id = buf_slice nodeInfo (26 * k) (26 * k + 20),
      addr = compact_text (buf_slice nodeInfo (26 * k + 20) (26 * k + 26))\<rparr>"

text \<open>
  \<^verbatim>\<open>parsePeerInfo\<close> (lines 977-984), the parser of the \<^verbatim>\<open>values\<close> field, for a list of
  Buffers: \<^verbatim>\<open>list.map(compact2string)\<close>, and the empty list when any element makes
  \<^verbatim>\<open>compact2string\<close> throw.
\<close>

fun map_compact2string :: "bytes list \<Rightarrow> string list option" where
  "map_compact2string [] = Some []"
| "map_compact2string (buf # rest) =
     (case compact2string buf of
        None \<Rightarrow> None
      | Some a \<Rightarrow>
          (case map_compact2string rest of
             None \<Rightarrow> None
           | Some as \<Rightarrow> Some (a # as)))"

definition parsePeerInfo :: "bytes list \<Rightarrow> string list" where
  "parsePeerInfo list = (case map_compact2string list of None \<Rightarrow> [] | Some as \<Rightarrow> as)"

section \<open>The routing table and the iterative lookup (lines 357-422)\<close>

definition K :: nat where
  "K = 8"

definition MAX_CONCURRENCY :: int where
  "MAX_CONCURRENCY = 3"

text \<open>
  Modelled from the spec: the routing table is the \<^verbatim>\<open>k-bucket\<close> library, which is not part
  of the repository. Its \<^verbatim>\<open>closest(target, n)\<close> returns up to \<open>n\<close> contacts sorted
  ascending by the XOR of target and contact id (two ids of the same length), read as an
  unsigned integer, ties in insertion order. The table is the list of its contacts in
  insertion order.
\<close>

definition xor_distance :: "bytes \<Rightarrow> bytes \<Rightarrow> nat" where
  "xor_distance a b = foldl (\<lambda>acc x. 256 * acc + unat x) 0 (map2 (\<lambda>x y. xor x y) a b)"

definition closest :: "contact list \<Rightarrow> bytes \<Rightarrow> nat \<Rightarrow> contact list" where
  "closest tbl target n = take n (sort_key (\<lambda>c. xor_distance target (node_id c)) tbl)"

text \<open>
  The variables of one \<^verbatim>\<open>lookup\<close> call: \<^verbatim>\<open>pending\<close>, \<^verbatim>\<open>queried\<close>, and two traces of
  what the closure does: \<open>probes\<close> lists the addresses \<^verbatim>\<open>query\<close> was called with, in
  order (each call sends one \<^verbatim>\<open>find_node\<close> or \<^verbatim>\<open>get_peers\<close> whose completion calls
  \<^verbatim>\<open>onResponse\<close> again; the datagram and its transaction are left out of this record),
  and \<open>finished\<close> counts the calls of the caller's \<^verbatim>\<open>cb\<close>.
\<close>

record lookup_state =
  pending :: int
  queried :: "string list"
  probes :: "string list"
  finished :: nat

definition query :: "lookup_state \<Rightarrow> string \<Rightarrow> lookup_state" where
  "query lk a = lk\<lparr>pending := pending lk + 1, queried := a # queried lk, probes := probes lk @ [a]\<rparr>"

text \<open>The \<^verbatim>\<open>while\<close> loop of lines 399-403; \<^verbatim>\<open>candidates.pop()\<close> takes the last element.\<close>

function issue :: "lookup_state \<Rightarrow> contact list \<Rightarrow> lookup_state \<times> contact list" where
  "issue lk candidates =
     (if pending lk < MAX_CONCURRENCY \<and> candidates \<noteq> [] then
        issue (query lk (addr (last candidates))) (butlast candidates)
      else (lk, candidates))"
  by pat_completeness auto
termination
  by (relation "measure (\<lambda>(lk, candidates). length candidates)") auto

declare issue.simps [simp del]

definition lookup_onResponse :: "dht \<Rightarrow> bytes \<Rightarrow> lookup_state \<Rightarrow> js_error + lookup_state" where
  "lookup_onResponse st target lk =
     (let lk1 = lk\<lparr>pending := pending lk - 1\<rparr> in
      case nodes st of
        None \<Rightarrow> Inl TypeError
      | Some tbl \<Rightarrow>
          (let candidates = filter (\<lambda>c. addr c \<notin> set (queried lk1) \<and> addr c \<notin> set prototype_keys)
                              (closest tbl target K)
           in case issue lk1 candidates of
                (lk2, rest) \<Rightarrow>
                  Inr (if pending lk2 = 0 \<and> rest = [] then lk2\<lparr>finished := finished lk2 + 1\<rparr>
                       else lk2)))"

text \<open>
  \<^verbatim>\<open>lookup\<close>: nothing at all once the node is closed (\<open>Inr None\<close>: no closure is made).
  \<open>addrs\<close> is \<^verbatim>\<open>opts.addrs\<close>, \<open>None\<close> when it is missing or \<^verbatim>\<open>null\<close>.
\<close>

definition lookup :: "(jsval \<Rightarrow> bytes option) \<Rightarrow> dht \<Rightarrow> jsval \<Rightarrow> string list option \<Rightarrow> js_error + lookup_state option" where
  "lookup newBuffer st ident addrs =
     (if closed st then Inr None
      else
        (case idToBuffer newBuffer ident of
           None \<Rightarrow> Inl TypeError
         | Some target \<Rightarrow>
             (let lk0 = \<lparr>pending = 0, queried = [], probes = [], finished = 0\<rparr> in
              case addrs of
                Some as \<Rightarrow> Inr (Some (foldl query lk0 as))
              | None \<Rightarrow>
                  (case lookup_onResponse st target (lk0\<lparr>pending := 1\<rparr>) of
                     Inl e \<Rightarrow> Inl e
                   | Inr lk \<Rightarrow> Inr (Some lk)))))"

section \<open>Transactions (lines 482-510 and 859-887)\<close>

definition getTransactionId :: "dht \<Rightarrow> string \<Rightarrow> dht \<times> nat" where
  "getTransactionId st a =
     (let r = (case transactions st a of
                 None \<Rightarrow> \<lparr>nextTransactionId = 1, live = []\<rparr>
               | Some r \<Rightarrow> r);
          transactionId = nextTransactionId r
      in (st\<lparr>transactions := (transactions st)(a \<mapsto>
                r\<lparr>nextTransactionId := transactionId + 1, live := transactionId # live r\<rparr>),
             timers := (a, transactionId) # timers st\<rparr>,
          transactionId))"

text \<open>\<^verbatim>\<open>fn = once(fn)\<close>: the wrapper calls the resolver the first time only.\<close>

definition once_fn :: "dht \<Rightarrow> string \<Rightarrow> nat \<Rightarrow> completion \<Rightarrow> dht" where
  "once_fn st a transactionId c =
     (if (a, transactionId) \<in> set (fired st) then st
      else st\<lparr>fired := (a, transactionId) # fired st, calls := calls st @ [(a, transactionId, c)]\<rparr>)"

text \<open>\<^verbatim>\<open>reqs[transactionId] = null\<close>.\<close>

definition clear_slot :: "dht \<Rightarrow> string \<Rightarrow> nat \<Rightarrow> dht" where
  "clear_slot st a transactionId =
     (case transactions st a of
        None \<Rightarrow> st
      | Some r \<Rightarrow>
          st\<lparr>transactions := (transactions st)(a \<mapsto> r\<lparr>live := removeAll transactionId (live r)\<rparr>)\<rparr>)"

text \<open>The timer callback of a transaction (lines 870-873).\<close>

definition onTimeout :: "dht \<Rightarrow> string \<Rightarrow> nat \<Rightarrow> dht" where
  "onTimeout st a transactionId =
     once_fn (clear_slot (st\<lparr>timers := removeAll (a, transactionId) (timers st)\<rparr>) a transactionId)
       a transactionId TimedOut"

text \<open>The \<^verbatim>\<open>cb\<close> of a slot (lines 875-879); \<^verbatim>\<open>clearTimeout\<close> disarms the timer.\<close>

definition onResponse :: "dht \<Rightarrow> string \<Rightarrow> nat \<Rightarrow> completion \<Rightarrow> dht" where
  "onResponse st a transactionId c =
     once_fn (clear_slot (st\<lparr>timers := removeAll (a, transactionId) (timers st)\<rparr>) a transactionId)
       a transactionId c"

text \<open>
  Line 486: \<^verbatim>\<open>Buffer.isBuffer(message.t) && message.t.readUInt16BE(0)\<close>. Reading two bytes
  from a shorter Buffer throws (a RangeError; an AssertionError in the oldest Node
  versions). For anything but a Buffer the value is \<^verbatim>\<open>false\<close>, \<open>None\<close> here.
\<close>

fun readTransactionId :: "jsval \<Rightarrow> js_error + nat option" where
  "readTransactionId (Buf b) =
     (if length b < 2 then Inl RangeError else Inr (Some (256 * unat (b ! 0) + unat (b ! 1))))"
| "readTransactionId v = Inr None"

text \<open>Line 488: the slot of the transaction, when there is a live one.\<close>

definition find_transaction :: "dht \<Rightarrow> string \<Rightarrow> nat option \<Rightarrow> nat option" where
  "find_transaction st a transactionId =
     (case transactions st a of
        None \<Rightarrow> None
      | Some r \<Rightarrow>
          (case transactionId of
             None \<Rightarrow> None
           | Some n \<Rightarrow> if n \<in> set (live r) then Some n else None))"

definition onResponseOrError :: "dht \<Rightarrow> string \<Rightarrow> int \<Rightarrow> string \<Rightarrow> jsval \<Rightarrow> outcome" where
  "onResponseOrError st host p type message =
     (let a = host @ '':'' @ show_int p in
      case readTransactionId (get_prop message ''t'') of
        Inl e \<Rightarrow> Raised e st
      | Inr transactionId \<Rightarrow>
          (case find_transaction st a transactionId of
             None \<Rightarrow>
               if type = ''e'' then Done (st\<lparr>log := log st @ [EmitWarning (get_prop message ''e'')]\<rparr>)
               else sendError st host (Num p) (get_prop message ''t'') 201 ''unexpected message''
           | Some n \<Rightarrow>
               Done (onResponse st a n
                       (if type = ''e'' then Failed (get_prop message ''e'')
                        else Reply (get_prop message ''r'')))))"

section \<open>Life cycle and table management (lines 161-253)\<close>

definition destroy :: "dht \<Rightarrow> dht" where
  "destroy st =
     st\<lparr>listening := False, closed := True, port := None,
        nodes := None, peers := None, addrData := None,
        bootstrapTimeout := False, rotateInterval := False, socket_open := False\<rparr>"

text \<open>
  \<open>p\<close> is the \<^verbatim>\<open>port\<close> argument of \<^verbatim>\<open>listen\<close>, \<open>None\<close> when it is not given. Binding
  the socket and asking \<^verbatim>\<open>portfinder\<close> for a port are recorded in the log; the
  \<^verbatim>\<open>listening\<close> event arrives later. \<^verbatim>\<open>destroy\<close> is taken without its callback.
\<close>

definition listen :: "dht \<Rightarrow> int option \<Rightarrow> outcome" where
  "listen st p =
     (if closed st \<or> listening st then Done st
      else
        (case p of
           None \<Rightarrow> Done (st\<lparr>log := log st @ [GetPort]\<rparr>)
         | Some n \<Rightarrow>
             if n \<noteq> 0 then Done (st\<lparr>port := Some n, log := log st @ [Bind n]\<rparr>)
             else Done (st\<lparr>log := log st @ [GetPort]\<rparr>)))"

text \<open>
  \<open>kb_add\<close>, \<open>kb_get\<close> and \<open>kb_remove\<close> are the \<^verbatim>\<open>add\<close>, \<^verbatim>\<open>get\<close> and \<^verbatim>\<open>remove\<close> of the
  \<^verbatim>\<open>k-bucket\<close> library. Calling a method of \<^verbatim>\<open>self.nodes\<close> when it is \<^verbatim>\<open>null\<close> throws a
  TypeError.
\<close>

definition addNode :: "(contact \<Rightarrow> contact list \<Rightarrow> contact list) \<Rightarrow> (jsval \<Rightarrow> bytes option) \<Rightarrow> dht \<Rightarrow> string \<Rightarrow> jsval \<Rightarrow> outcome" where
  "addNode kb_add newBuffer st a ident =
     (case idToBuffer newBuffer ident of
        None \<Rightarrow> Raised TypeError st
      | Some b \<Rightarrow>
          (case nodes st of
             None \<Rightarrow> Raised TypeError st
           | Some tbl \<Rightarrow>
               Done (st\<lparr>nodes := Some (kb_add \<lparr>node_id = b, addr = a\<rparr> tbl),
                        log := log st @ [EmitNode a b]\<rparr>)))"

definition removeNode :: "(contact list \<Rightarrow> bytes \<Rightarrow> contact option) \<Rightarrow> (contact \<Rightarrow> contact list \<Rightarrow> contact list) \<Rightarrow> (jsval \<Rightarrow> bytes option) \<Rightarrow> dht \<Rightarrow> jsval \<Rightarrow> outcome" where
  "removeNode kb_get kb_remove newBuffer st ident =
     (case nodes st of
        None \<Rightarrow> Raised TypeError st
      | Some tbl \<Rightarrow>
          (case idToBuffer newBuffer ident of
             None \<Rightarrow> Raised TypeError st
           | Some b \<Rightarrow>
               (case kb_get tbl b of
                  None \<Rightarrow> Done st
                | Some c \<Rightarrow> Done (st\<lparr>nodes := Some (kb_remove c tbl)\<rparr>))))"

section \<open>Construction (lines 67-128)\<close>

text \<open>
  The constructor with \<^verbatim>\<open>opts.nodeId\<close> a Buffer and \<^verbatim>\<open>opts.bootstrap\<close> false: empty
  tables, the first call of \<^verbatim>\<open>_rotateSecrets\<close> (which draws both secrets) and the rotation
  interval.
\<close>

definition DHT :: "bytes \<Rightarrow> bytes \<Rightarrow> bytes \<Rightarrow> dht" where
  "DHT ident c1 c2 =
     rotateSecrets c1 c2
       \<lparr>nodeId = ident, listening = False, closed = False, port = None,
        nodes = Some [], peers = Some Map.empty, addrData = Some Map.empty,
        transactions = Map.empty, secrets = None, timers = [], fired = [], calls = [],
        rotateInterval = True, bootstrapTimeout = False, socket_open = True, log = []\<rparr>"

text \<open>
  A stand-in for the digest in the concrete runs below. The client only compares digests
  for equality, so a run goes the same way for every digest function that keeps the
  digests it meets apart, as this one does.
\<close>

definition sample_sha1 :: "bytes \<Rightarrow> bytes" where
  "sample_sha1 bs = bs"

section \<open>Runs of the transaction registry\<close>

text \<open>
  What can happen to the registry, in any order: a query is sent to an address (which
  registers a transaction), the timer of a registered transaction fires, or a response or
  error arrives from some endpoint. The timer event is allowed whether or not
  \<^verbatim>\<open>clearTimeout\<close> has disarmed the timer. An exception thrown by the handler of an
  inbound message leaves the state as the handler left it. The one behaviour of the
  handler that is not covered (an error reply echoing a \<^verbatim>\<open>t\<close> that is neither a number
  nor a Buffer) can only send a datagram or throw, and is taken to leave the state.
\<close>

datatype event =
    Register string
  | TimerFires string nat
  | Inbound string int string jsval

definition registered :: "dht \<Rightarrow> string \<Rightarrow> nat \<Rightarrow> bool" where
  "registered st a transactionId =
     (case transactions st a of
        None \<Rightarrow> False
      | Some r \<Rightarrow> 0 < transactionId \<and> transactionId < nextTransactionId r)"

fun step :: "dht \<Rightarrow> event \<Rightarrow> dht" where
  "step st (Register a) = fst (getTransactionId st a)"
| "step st (TimerFires a transactionId) =
     (if registered st a transactionId then onTimeout st a transactionId else st)"
| "step st (Inbound host p type message) =
     (case onResponseOrError st host p type message of
        Done st' \<Rightarrow> st'
      | Raised e st' \<Rightarrow> st'
      | Uncovered \<Rightarrow> st)"

text \<open>The invocations of the resolver registered under address \<open>a\<close> and id \<open>n\<close>.\<close>

definition invocations :: "dht \<Rightarrow> string \<Rightarrow> nat \<Rightarrow> (string \<times> nat \<times> completion) list" where
  "invocations st a n = filter (\<lambda>call. fst call = a \<and> fst (snd call) = n) (calls st)"

section \<open>A concrete announce\<close>

text \<open>
  The setting of the spec's announce scenario: a node with id \<open>[7]\<close> whose secrets are
  \<open>[10]\<close> (current) and \<open>[11]\<close> (previous), and an \<^verbatim>\<open>announce_peer\<close> query from
  \<^verbatim>\<open>9.9.9.9\<close> for a twenty-byte info-hash, carrying the token issued to \<^verbatim>\<open>9.9.9.9\<close> and the
  further arguments \<open>a\<close>.
\<close>

definition scenario_info_hash :: bytes where
  "scenario_info_hash = [1, 2, 3, 4, 5, 6, 7, 8, 9, 10, 11, 12, 13, 14, 15, 16, 17, 18, 19, 20]"

definition scenario_node :: dht where
  "scenario_node = DHT [7] [10] [11]"

definition scenario_token :: bytes where
  "scenario_token = sample_sha1 (utf8 ''9.9.9.9'' @ [10])"

definition announce_query :: "(string \<times> jsval) list \<Rightarrow> jsval" where
  "announce_query a =
     Obj [(''t'', Buf [0, 1]), (''y'', Buf (utf8 ''q'')), (''q'', Buf (utf8 ''announce_peer'')),
          (''a'', Obj ([(''id'', Buf [9]), (''info_hash'', Buf scenario_info_hash),
                       (''token'', Buf scenario_token)] @ a))]"

definition scenario_ack :: jsval where
  "scenario_ack = Obj [(''t'', Buf [0, 1]), (''y'', Str ''r''), (''r'', Obj [(''id'', Buf [7])])]"

section \<open>Concrete inputs for the peer store and the parser\<close>

text \<open>
  The value of \<^verbatim>\<open>string2compact\<close> at the one address the run below uses: four address
  bytes and the port 6881 in two bytes, high byte first.
\<close>

definition sample_string2compact :: "string \<Rightarrow> js_error + bytes" where
  "sample_string2compact a =
     (if a = ''1.2.3.4:6881'' then Inr [1, 2, 3, 4, 26, 225] else Inl Error)"

text \<open>The node of the announce scenario after \<^verbatim>\<open>addPeer('1.2.3.4:6881', infoHash)\<close>.\<close>

definition stored_node :: dht where
  "stored_node =
     scenario_node\<lparr>peers := Some [hex_of scenario_info_hash \<mapsto> [[1, 2, 3, 4, 26, 225]]],
                   log := [EmitPeer ''1.2.3.4:6881'' (Str (hex_of scenario_info_hash))]\<rparr>"

text \<open>A compact node info field of 27 bytes: one whole record and one byte of a second.\<close>

definition sample_node_info :: bytes where
  "sample_node_info =
     [1, 1, 1, 1, 1, 1, 1, 1, 1, 1, 1, 1, 1, 1, 1, 1, 1, 1, 1, 1, 1, 2, 3, 4, 26, 225, 255]"

section \<open>Concrete inputs for the lookup and the registry\<close>

text \<open>
  A routing table of four contacts whose ids are at XOR distance 1, 2, 3 and 4 from the
  all-zero target, inserted closest first.
\<close>

definition sample_table :: "contact list" where
  "sample_table =
     [\<lparr>node_id = replicate 19 0 @ [1], addr = ''10.0.0.1:6881''\<rparr>,
      \<lparr>node_id = replicate 19 0 @ [2], addr = ''10.0.0.2:6881''\<rparr>,
      \<lparr>node_id = replicate 19 0 @ [3], addr = ''10.0.0.3:6881''\<rparr>,
      \<lparr>node_id = replicate 19 0 @ [4], addr = ''10.0.0.4:6881''\<rparr>]"

text \<open>A response with transaction id 1 that nobody asked for.\<close>

definition stray_response :: jsval where
  "stray_response =
     Obj [(''t'', Buf [0, 1]), (''y'', Buf (utf8 ''r'')), (''r'', Obj [(''id'', Buf [9])])]"

text \<open>A response whose transaction id has a single byte.\<close>

definition short_id_response :: jsval where
  "short_id_response =
     Obj [(''t'', Buf [97]), (''y'', Buf (utf8 ''r'')), (''r'', Obj [(''id'', Buf [9])])]"

text \<open>A response whose transaction id has three bytes, the first two being those of id 1.\<close>

definition long_id_response :: jsval where
  "long_id_response =
     Obj [(''t'', Buf [0, 1, 99]), (''y'', Buf (utf8 ''r'')), (''r'', Obj [(''id'', Buf [9])])]"

text \<open>
  The invariant of the registry: no resolver appears twice among the invocations, and
  every resolver that was invoked has its \<^verbatim>\<open>once\<close> flag set.
\<close>

definition call_key :: "string \<times> nat \<times> completion \<Rightarrow> string \<times> nat" where
  "call_key call = (fst call, fst (snd call))"

definition once_inv :: "dht \<Rightarrow> bool" where
  "once_inv st =
     (distinct (map call_key (calls st)) \<and> set (map call_key (calls st)) \<subseteq> set (fired st))"

section \<open>Properties of the token authority\<close>

lemma isValidToken_eq:
  "secrets st = Some (s0, s1) \<Longrightarrow>
   isValidToken sha1 st token host =
     Inr (bufferEqual token (Buf (sha1 (utf8 host @ s0))) \<or>
          bufferEqual token (Buf (sha1 (utf8 host @ s1))))"
  by (simp add: isValidToken_def generateToken_def)

lemma secrets_rotateSecrets:
  "secrets st = Some (s0, s1) \<Longrightarrow> secrets (rotateSecrets c1 c2 st) = Some (c1, s0)"
  by (simp add: rotateSecrets_def)

lemma secrets_DHT: "secrets (DHT ident c1 c2) = Some (c1, c2)"
  by (simp add: DHT_def rotateSecrets_def)

text \<open>
  After two rotations the secrets are the two drawn values, so an older token verifies
  exactly when its digest meets the digest under one of them.
\<close>

lemma token_after_two_rotations:
  "secrets st = Some (s0, s1) \<Longrightarrow>
   isValidToken sha1 (rotateSecrets c2 d2 (rotateSecrets c1 d1 st)) (Buf token) ip =
     Inr (token = sha1 (utf8 ip @ c2) \<or> token = sha1 (utf8 ip @ c1))"
  by (simp add: isValidToken_eq [OF secrets_rotateSecrets [OF secrets_rotateSecrets]])

text \<open>
  C2. On a constructed node (both secrets set), the token issued for \<open>ip\<close> verifies
  against \<open>ip\<close> at once and after one rotation; after two rotations it does not verify,
  given that the digests of \<open>ip\<close> under the two secrets drawn by the rotations differ from
  the token (the secrets are fresh and the digest does not collide on them).
\<close>

theorem token_validity:
  assumes init: "secrets st = Some (s0, s1)"
    and issued: "generateToken sha1 st ip None = Inr token"
    and fresh1: "sha1 (utf8 ip @ c1) \<noteq> token"
    and fresh2: "sha1 (utf8 ip @ c2) \<noteq> token"
  shows "isValidToken sha1 st (Buf token) ip = Inr True
       \<and> isValidToken sha1 (rotateSecrets c1 d1 st) (Buf token) ip = Inr True
       \<and> isValidToken sha1 (rotateSecrets c2 d2 (rotateSecrets c1 d1 st)) (Buf token) ip = Inr False"
proof -
  from init issued have tok: "token = sha1 (utf8 ip @ s0)"
    by (simp add: generateToken_def)
  have r1: "secrets (rotateSecrets c1 d1 st) = Some (c1, s0)"
    using init by (rule secrets_rotateSecrets)
  have r2: "secrets (rotateSecrets c2 d2 (rotateSecrets c1 d1 st)) = Some (c2, c1)"
    using r1 by (rule secrets_rotateSecrets)
  have "isValidToken sha1 st (Buf token) ip = Inr True"
    using tok by (simp add: isValidToken_eq [OF init])
  moreover have "isValidToken sha1 (rotateSecrets c1 d1 st) (Buf token) ip = Inr True"
    using tok by (simp add: isValidToken_eq [OF r1])
  moreover have
    "isValidToken sha1 (rotateSecrets c2 d2 (rotateSecrets c1 d1 st)) (Buf token) ip = Inr False"
    using fresh1 fresh2 by (auto simp add: isValidToken_eq [OF r2])
  ultimately show ?thesis by simp
qed

theorem token_validity_witness:
  "isValidToken sample_sha1 (DHT [1] [10] [11]) (Buf (utf8 ''9.9.9.9'' @ [10])) ''9.9.9.9'' = Inr True
   \<and> isValidToken sample_sha1 (rotateSecrets [12] [] (DHT [1] [10] [11]))
        (Buf (utf8 ''9.9.9.9'' @ [10])) ''9.9.9.9'' = Inr True
   \<and> isValidToken sample_sha1 (rotateSecrets [13] [] (rotateSecrets [12] [] (DHT [1] [10] [11])))
        (Buf (utf8 ''9.9.9.9'' @ [10])) ''9.9.9.9'' = Inr False"
proof -
  have a: "secrets (DHT [1] [10] [11]) = Some ([10], [11])"
    by (rule secrets_DHT)
  have b: "generateToken sample_sha1 (DHT [1] [10] [11]) ''9.9.9.9'' None
             = Inr (utf8 ''9.9.9.9'' @ [10])"
    by (simp add: generateToken_def a sample_sha1_def)
  have c: "sample_sha1 (utf8 ''9.9.9.9'' @ [12]) \<noteq> utf8 ''9.9.9.9'' @ [10]"
    by (simp add: sample_sha1_def)
  have d: "sample_sha1 (utf8 ''9.9.9.9'' @ [13]) \<noteq> utf8 ''9.9.9.9'' @ [10]"
    by (simp add: sample_sha1_def)
  show ?thesis
    using token_validity [OF a b c d] by simp
qed

section \<open>Properties of the announce handler\<close>

lemma hex_of_Nil_iff: "hex_of h = [] \<longleftrightarrow> h = []"
  by (cases h) (simp_all add: hex_of_def)

lemma secrets_scenario_node: "secrets scenario_node = Some ([10], [11])"
  by (simp add: scenario_node_def secrets_DHT)

lemma log_scenario_node: "log scenario_node = []"
  by (simp add: scenario_node_def DHT_def rotateSecrets_def)

lemma nodeId_scenario_node: "nodeId scenario_node = [7]"
  by (simp add: scenario_node_def DHT_def rotateSecrets_def)

lemma peers_scenario_node: "peers scenario_node = Some Map.empty"
  by (simp add: scenario_node_def DHT_def rotateSecrets_def)

lemma scenario_query_a:
  "get_prop (announce_query a) ''a'' =
     Obj ([(''id'', Buf [9]), (''info_hash'', Buf scenario_info_hash), (''token'', Buf scenario_token)] @ a)"
  "get_prop (announce_query a) ''t'' = Buf [0, 1]"
  by (simp_all add: announce_query_def)

lemma scenario_validated:
  "truthy (idToHexString (js_and (get_prop (announce_query a) ''a'')
             (get_prop (get_prop (announce_query a) ''a'') ''info_hash'')))"
  "isValidToken sample_sha1 scenario_node
     (js_and (get_prop (announce_query a) ''a'') (get_prop (get_prop (announce_query a) ''a'') ''token''))
     ''9.9.9.9'' = Inr True"
  by (simp_all add: scenario_query_a js_and_def hex_of_Nil_iff scenario_info_hash_def
      isValidToken_eq [OF secrets_scenario_node] scenario_token_def)

lemma announce_validated:
  assumes ih: "truthy (idToHexString (js_and (get_prop message ''a'')
                 (get_prop (get_prop message ''a'') ''info_hash'')))"
    and tok: "isValidToken sha1 st (js_and (get_prop message ''a'')
                 (get_prop (get_prop message ''a'') ''token'')) host = Inr True"
  shows "onAnnouncePeer sha1 st host src_port message =
           send st host (effective_port src_port (get_prop message ''a'')) (acknowledgement st message)"
  using ih tok by (simp add: onAnnouncePeer_def Let_def)

lemma encodable_scenario_ack: "encodable scenario_ack"
  by (simp add: scenario_ack_def)

lemma acknowledgement_scenario: "acknowledgement scenario_node (announce_query a) = scenario_ack"
  by (simp add: acknowledgement_def scenario_ack_def scenario_query_a nodeId_scenario_node)

text \<open>
  C1. The handler never touches the peer store. In the spec's scenario (valid token,
  \<^verbatim>\<open>port = 0\<close>, \<^verbatim>\<open>implied_port = 1\<close>, sent from \<^verbatim>\<open>9.9.9.9:54321\<close>) the node replies
  \<^verbatim>\<open>{t, y: 'r', r: {id}}\<close> and its peer store is as empty as before: the endpoint
  \<^verbatim>\<open>9.9.9.9:54321\<close> is not inserted under the info-hash.
\<close>

theorem announce_peer_not_stored:
  "onAnnouncePeer sample_sha1 scenario_node ''9.9.9.9'' 54321
     (announce_query [(''port'', Num 0), (''implied_port'', Num 1)])
     = Done (scenario_node\<lparr>log := [Sent ''9.9.9.9'' 54321 scenario_ack]\<rparr>)
   \<and> peers (scenario_node\<lparr>log := [Sent ''9.9.9.9'' 54321 scenario_ack]\<rparr>) = Some Map.empty"
  by (simp add: announce_validated [OF scenario_validated] acknowledgement_scenario
      effective_port_def scenario_query_a send_def log_scenario_node encodable_scenario_ack peers_scenario_node)

lemma send_peers: "send st host p message = Done st' \<Longrightarrow> peers st' = peers st"
  by (auto simp add: send_def split: jsval.splits if_splits)

lemma sendError_peers: "sendError st host p t code message = Done st' \<Longrightarrow> peers st' = peers st"
  by (auto simp add: sendError_def dest: send_peers split: option.splits sum.splits if_splits)

lemma onAnnouncePeer_peers:
  "onAnnouncePeer sha1 st host src_port message = Done st' \<Longrightarrow> peers st' = peers st"
  by (auto simp add: onAnnouncePeer_def Let_def dest: send_peers sendError_peers
      split: sum.splits if_splits)

lemma send_peers_raised: "send st host p message = Raised e st' \<Longrightarrow> peers st' = peers st"
  by (auto simp add: send_def split: jsval.splits if_splits)

lemma sendError_peers_raised: "sendError st host p t code message = Raised e st' \<Longrightarrow> peers st' = peers st"
  by (auto simp add: sendError_def dest: send_peers_raised split: option.splits sum.splits if_splits)

lemma onAnnouncePeer_peers_raised:
  "onAnnouncePeer sha1 st host src_port message = Raised e st' \<Longrightarrow> peers st' = peers st"
  by (auto simp add: onAnnouncePeer_def Let_def dest: send_peers_raised sendError_peers_raised
      split: sum.splits if_splits)

text \<open>
  C3, as the code has it. For every \<^verbatim>\<open>announce_peer\<close> query that passes validation (a
  truthy \<^verbatim>\<open>a.info_hash\<close>, a valid token) the acknowledgement is given to \<^verbatim>\<open>_send\<close> with
  the effective port, and the effective port is \<^verbatim>\<open>a.port\<close> when \<^verbatim>\<open>a.implied_port\<close> is the
  integer 0 and the UDP source port in every other case, also when \<^verbatim>\<open>a.implied_port\<close>
  is absent.
\<close>

theorem announce_effective_port:
  assumes ih: "truthy (idToHexString (js_and (get_prop message ''a'')
                 (get_prop (get_prop message ''a'') ''info_hash'')))"
    and tok: "isValidToken sha1 st (js_and (get_prop message ''a'')
                 (get_prop (get_prop message ''a'') ''token'')) host = Inr True"
  shows "onAnnouncePeer sha1 st host src_port message =
           send st host (effective_port src_port (get_prop message ''a'')) (acknowledgement st message)
       \<and> effective_port src_port (get_prop message ''a'') =
           (if get_prop (get_prop message ''a'') ''implied_port'' = Num 0
            then get_prop (get_prop message ''a'') ''port'' else Num src_port)"
  using announce_validated [OF ih tok] by (simp add: effective_port_def)

theorem announce_effective_port_witness:
  "onAnnouncePeer sample_sha1 scenario_node ''9.9.9.9'' 54321
     (announce_query [(''port'', Num 6881), (''implied_port'', Num 0)])
     = Done (scenario_node\<lparr>log := [Sent ''9.9.9.9'' 6881 scenario_ack]\<rparr>)
   \<and> effective_port 54321 (get_prop (announce_query [(''port'', Num 6881), (''implied_port'', Num 0)]) ''a'')
     = Num 6881"
proof -
  note v = scenario_validated [where a = "[(''port'', Num 6881), (''implied_port'', Num 0)]"]
  show ?thesis
    using announce_effective_port [OF v, where src_port = 54321]
    by (simp add: acknowledgement_scenario scenario_query_a send_def log_scenario_node encodable_scenario_ack)
qed

text \<open>
  C3 as stated fails: a validated query without \<^verbatim>\<open>a.implied_port\<close> and with
  \<^verbatim>\<open>a.port = 6881\<close>, sent from port 54321, gets the effective port 54321, not 6881.
\<close>

theorem announce_effective_port_counterexample:
  "get_prop (get_prop (announce_query [(''port'', Num 6881)]) ''a'') ''implied_port'' = Undefined
   \<and> get_prop (get_prop (announce_query [(''port'', Num 6881)]) ''a'') ''port'' = Num 6881
   \<and> effective_port 54321 (get_prop (announce_query [(''port'', Num 6881)]) ''a'') = Num 54321
   \<and> onAnnouncePeer sample_sha1 scenario_node ''9.9.9.9'' 54321 (announce_query [(''port'', Num 6881)])
       = Done (scenario_node\<lparr>log := [Sent ''9.9.9.9'' 54321 scenario_ack]\<rparr>)"
  by (simp add: announce_validated [OF scenario_validated] acknowledgement_scenario
      effective_port_def scenario_query_a send_def log_scenario_node encodable_scenario_ack)

text \<open>
  A validated query without \<^verbatim>\<open>t\<close> gets no acknowledgement when the port passes the
  guard: the acknowledgement holds \<^verbatim>\<open>t: undefined\<close> and the encoder throws.
\<close>

lemma encodable_acknowledgement:
  "encodable (acknowledgement st message) = encodable (get_prop message ''t'')"
  by (simp add: acknowledgement_def)

lemma announce_without_t_throws:
  assumes ih: "truthy (idToHexString (js_and (get_prop message ''a'')
                 (get_prop (get_prop message ''a'') ''info_hash'')))"
    and tok: "isValidToken sha1 st (js_and (get_prop message ''a'')
                 (get_prop (get_prop message ''a'') ''token'')) host = Inr True"
    and absent: "get_prop message ''t'' = Undefined"
    and eff: "effective_port src_port (get_prop message ''a'') = Num p"
    and range: "0 < p" "p < 65535"
  shows "onAnnouncePeer sha1 st host src_port message = Raised TypeError st"
  using absent eff range
  by (simp add: announce_validated [OF ih tok] send_def encodable_acknowledgement)




section \<open>Properties of the peer store\<close>

lemma remove_scan_iff:
  "remove_scan ps c = (if c \<in> set ps then Some ReferenceError else None)"
  by (induction ps) auto

text \<open>
  C4. With the compact form of the address present under the info-hash, \<^verbatim>\<open>removePeer\<close>
  throws a ReferenceError and removes nothing: after
  \<^verbatim>\<open>addPeer('1.2.3.4:6881', infoHash)\<close> has stored the peer,
  \<^verbatim>\<open>removePeer(infoHash, '1.2.3.4:6881')\<close> raises and leaves the store as it was.
\<close>

theorem removePeer_present_throws:
  "addPeer sample_string2compact scenario_node ''1.2.3.4:6881'' (Buf scenario_info_hash)
     = Done stored_node
   \<and> removePeer sample_string2compact stored_node (Buf scenario_info_hash) ''1.2.3.4:6881''
     = Raised ReferenceError stored_node"
  by (simp add: addPeer_def removePeer_def stored_node_def sample_string2compact_def
      peers_scenario_node log_scenario_node prototype_keys_def hex_of_def hex_digit_def
      scenario_info_hash_def)

section \<open>Properties after shutdown\<close>

text \<open>
  C8. After \<^verbatim>\<open>destroy()\<close>, \<^verbatim>\<open>lookup\<close> and \<^verbatim>\<open>listen\<close> return at once and change nothing,
  but \<^verbatim>\<open>addNode\<close>, \<^verbatim>\<open>removeNode\<close>, \<^verbatim>\<open>addPeer\<close> and \<^verbatim>\<open>removePeer\<close> have no such guard:
  each reads a table that \<^verbatim>\<open>destroy\<close> has set to \<^verbatim>\<open>null\<close> and throws a TypeError, for
  every argument.
\<close>

theorem public_operations_after_destroy:
  "addNode kb_add newBuffer (destroy st) a ident = Raised TypeError (destroy st)
   \<and> removeNode kb_get kb_remove newBuffer (destroy st) ident = Raised TypeError (destroy st)
   \<and> addPeer string2compact (destroy st) a infoHash = Raised TypeError (destroy st)
   \<and> removePeer string2compact (destroy st) infoHash a = Raised TypeError (destroy st)
   \<and> lookup newBuffer (destroy st) ident addrs = Inr None
   \<and> listen (destroy st) p = Done (destroy st)"
  by (simp add: addNode_def removeNode_def addPeer_def removePeer_def lookup_def listen_def
      destroy_def split: option.splits)

section \<open>Properties of the compact node info parser\<close>

lemma length_buf_slice: "length (buf_slice b i j) = min (j - i) (length b - i)"
  by (simp add: buf_slice_def)

text \<open>
  The loop started at the \<open>k\<close>-th record appends the contacts of the whole records from
  \<open>k\<close> on: a whole record has a six-byte address slice, and the record after the last
  whole one either does not exist or has a shorter slice, on which \<^verbatim>\<open>compact2string\<close>
  throws and the \<^verbatim>\<open>catch\<close> returns what was collected.
\<close>

lemma parseNodeInfo_from_records:
  "parseNodeInfo_from b (26 * k) acc = acc @ map (contact_at b) [k..<length b div 26]"
proof (induction "length b div 26 - k" arbitrary: k acc)
  case 0
  then have k: "length b div 26 \<le> k" by simp
  then have short: "length b < 26 * k + 26" by arith
  have "parseNodeInfo_from b (26 * k) acc = acc"
  proof (cases "26 * k < length b")
    case True
    have "length (buf_slice b (26 * k + 20) (26 * k + 26)) \<noteq> 6"
      using short by (simp add: length_buf_slice)
    then show ?thesis
      using True by (subst parseNodeInfo_from.simps) (simp add: compact2string_def)
  next
    case False
    then show ?thesis by (subst parseNodeInfo_from.simps) simp
  qed
  then show ?case using k by simp
next
  case (Suc n)
  then have k: "k < length b div 26" by simp
  then have whole: "26 * k + 26 \<le> length b" by arith
  have six: "length (buf_slice b (26 * k + 20) (26 * k + 26)) = 6"
    using whole by (simp add: length_buf_slice)
  have n: "n = length b div 26 - Suc k" using Suc.hyps(2) by simp
  have "parseNodeInfo_from b (26 * k) acc
          = parseNodeInfo_from b (26 * Suc k) (acc @ [contact_at b k])"
    using whole six
    by (subst parseNodeInfo_from.simps) (simp add: compact2string_def contact_at_def add.commute)
  also have "\<dots> = (acc @ [contact_at b k]) @ map (contact_at b) [Suc k..<length b div 26]"
    using n by (rule Suc.hyps(1))
  finally show ?case using k by (simp add: upt_conv_Cons)
qed

lemma parseNodeInfo_records: "parseNodeInfo b = map (contact_at b) [0..<length b div 26]"
  using parseNodeInfo_from_records [of b 0 "[]"] by (simp add: parseNodeInfo_def)

lemma length_sample_node_info: "length sample_node_info = 27"
  by (simp add: sample_node_info_def)

lemma contact_at_sample:
  "contact_at sample_node_info 0 =
     \<lparr>node_id = [1, 1, 1, 1, 1, 1, 1, 1, 1, 1, 1, 1, 1, 1, 1, 1, 1, 1, 1, 1],
      addr = ''1.2.3.4:6881''\<rparr>"
  by (simp add: contact_at_def sample_node_info_def buf_slice_def compact_text_def decimal.simps)

text \<open>
  C9. A field of 27 bytes (one whole record, then one more byte) is not discarded: the
  parse yields the contact of the whole leading record. The claim says that no contact at
  all comes out of such a field.
\<close>

theorem parseNodeInfo_keeps_leading_record:
  "length sample_node_info mod 26 \<noteq> 0 \<and>
   parseNodeInfo sample_node_info =
     [\<lparr>node_id = [1, 1, 1, 1, 1, 1, 1, 1, 1, 1, 1, 1, 1, 1, 1, 1, 1, 1, 1, 1],
       addr = ''1.2.3.4:6881''\<rparr>]"
  by (simp add: parseNodeInfo_records length_sample_node_info contact_at_sample)

text \<open>
  The sibling parser does discard everything: one malformed entry empties the result of
  \<^verbatim>\<open>parsePeerInfo\<close>, also when a well-formed entry comes first.
\<close>

lemma parsePeerInfo_discards_all:
  "parsePeerInfo [[1, 2, 3, 4, 26, 225], [255]] = []"
  by (simp add: parsePeerInfo_def compact2string_def)

section \<open>Properties of the iterative lookup\<close>

lemma xor_distance_last_byte:
  "xor_distance (replicate 20 0) (replicate 19 0 @ [b]) = unat b"
  by (simp add: xor_distance_def eval_nat_numeral)

lemma closest_sample: "closest sample_table (replicate 20 0) K = sample_table"
  by (simp add: closest_def sample_table_def K_def xor_distance_last_byte)

text \<open>
  The loop takes its probes from the end of the candidate list until \<^verbatim>\<open>pending\<close> reaches
  the cap or the list is empty: what it queries is the reversed tail of the list.
\<close>

lemma issue_from_the_end:
  "pending lk \<le> MAX_CONCURRENCY \<Longrightarrow>
   issue lk candidates =
     (foldl query lk (map addr (take (nat (MAX_CONCURRENCY - pending lk)) (rev candidates))),
      take (length candidates - nat (MAX_CONCURRENCY - pending lk)) candidates)"
proof (induction candidates arbitrary: lk rule: rev_induct)
  case Nil
  then show ?case by (subst issue.simps) simp
next
  case (snoc c cs)
  show ?case
  proof (cases "pending lk < MAX_CONCURRENCY")
    case True
    then have p: "pending (query lk (addr c)) \<le> MAX_CONCURRENCY"
      by (simp add: query_def)
    have n: "nat (MAX_CONCURRENCY - pending lk) = Suc (nat (MAX_CONCURRENCY - pending (query lk (addr c))))"
      using True by (simp add: query_def)
    have "issue lk (cs @ [c]) = issue (query lk (addr c)) cs"
      using True by (subst issue.simps) simp
    then show ?thesis
      by (simp add: snoc.IH [OF p] n)
  next
    case False
    with snoc.prems have "pending lk = MAX_CONCURRENCY" by simp
    then show ?thesis by (subst issue.simps) simp
  qed
qed

lemma pending_foldl_query: "pending (foldl query lk as) = pending lk + int (length as)"
  by (induction as arbitrary: lk) (simp_all add: query_def)

lemma probes_foldl_query: "probes (foldl query lk as) = probes lk @ as"
  by (induction as arbitrary: lk) (simp_all add: query_def)

text \<open>The cap of three pending probes holds, and the loop stops only at the cap or when no
  candidate is left.\<close>

lemma issue_respects_cap:
  "pending lk \<le> MAX_CONCURRENCY \<Longrightarrow> pending (fst (issue lk candidates)) \<le> MAX_CONCURRENCY"
  by (simp add: issue_from_the_end pending_foldl_query)

lemma issue_until_cap_or_exhausted:
  "pending lk \<le> MAX_CONCURRENCY \<Longrightarrow>
   pending (fst (issue lk candidates)) = MAX_CONCURRENCY \<or> snd (issue lk candidates) = []"
  by (auto simp add: issue_from_the_end pending_foldl_query)

lemma issue_probes:
  "pending lk \<le> MAX_CONCURRENCY \<Longrightarrow>
   probes (fst (issue lk candidates)) =
     probes lk @ map addr (take (nat (MAX_CONCURRENCY - pending lk)) (rev candidates))"
  by (simp add: issue_from_the_end probes_foldl_query)

text \<open>
  C5. When a probe completes with four unqueried contacts in the table, at distances 1, 2,
  3 and 4 from the target, the three new probes go to the contacts at distance 4, 3 and 2,
  in that order: farthest first, and the closest candidate is not probed at all. The cap
  holds (\<^verbatim>\<open>pending\<close> ends at 3).
\<close>

theorem lookup_probes_farthest_first:
  "map (xor_distance (replicate 20 0) \<circ> node_id) (closest sample_table (replicate 20 0) K)
     = [1, 2, 3, 4]
   \<and> lookup_onResponse (scenario_node\<lparr>nodes := Some sample_table\<rparr>) (replicate 20 0)
         \<lparr>pending = 1, queried = [], probes = [], finished = 0\<rparr>
       = Inr \<lparr>pending = 3,
              queried = [''10.0.0.2:6881'', ''10.0.0.3:6881'', ''10.0.0.4:6881''],
              probes = [''10.0.0.4:6881'', ''10.0.0.3:6881'', ''10.0.0.2:6881''],
              finished = 0\<rparr>"
proof -
  have c: "closest sample_table (replicate 20 0) K = sample_table"
    by (rule closest_sample)
  have i: "issue \<lparr>pending = 0, queried = [], probes = [], finished = 0\<rparr> sample_table
        = (\<lparr>pending = 3,
              queried = [''10.0.0.2:6881'', ''10.0.0.3:6881'', ''10.0.0.4:6881''],
              probes = [''10.0.0.4:6881'', ''10.0.0.3:6881'', ''10.0.0.2:6881''],
              finished = 0\<rparr>,
           [\<lparr>node_id = replicate 19 0 @ [1], addr = ''10.0.0.1:6881''\<rparr>])"
    by (simp add: issue_from_the_end MAX_CONCURRENCY_def sample_table_def query_def)
  have f: "filter (\<lambda>c. addr c \<notin> set [] \<and> addr c \<notin> set prototype_keys) sample_table
             = sample_table"
    by (simp add: sample_table_def prototype_keys_def)
  have l: "lookup_onResponse (scenario_node\<lparr>nodes := Some sample_table\<rparr>) (replicate 20 0)
             \<lparr>pending = 1, queried = [], probes = [], finished = 0\<rparr>
           = Inr \<lparr>pending = 3,
                  queried = [''10.0.0.2:6881'', ''10.0.0.3:6881'', ''10.0.0.4:6881''],
                  probes = [''10.0.0.4:6881'', ''10.0.0.3:6881'', ''10.0.0.2:6881''],
                  finished = 0\<rparr>"
    unfolding lookup_onResponse_def Let_def by (simp add: c f [simplified] i) 
  show ?thesis
    by (simp add: l c) (simp add: sample_table_def xor_distance_last_byte)
qed

section \<open>Properties of the registry\<close>

text \<open>
  A response that matches no transaction is answered through \<^verbatim>\<open>_sendError\<close>, whatever its
  \<^verbatim>\<open>t\<close> is, as long as reading the transaction id did not throw.
\<close>

lemma unexpected_response_sendError:
  "readTransactionId (get_prop message ''t'') = Inr transactionId \<Longrightarrow>
   find_transaction st (host @ '':'' @ show_int p) transactionId = None \<Longrightarrow>
   onResponseOrError st host p ''r'' message =
     sendError st host (Num p) (get_prop message ''t'') 201 ''unexpected message''"
  by (simp add: onResponseOrError_def Let_def)

lemma sendError_untagged:
  "\<not> truthy t \<or> isBuffer t \<Longrightarrow>
   sendError st host p t code message =
     send st host p (Obj (error_message code message @ (if truthy t then [(''t'', t)] else [])))"
  by (auto simp add: sendError_def)

lemma encodable_error_message:
  "\<not> truthy t \<or> isBuffer t \<Longrightarrow>
   encodable (Obj (error_message code message @ (if truthy t then [(''t'', t)] else [])))"
  by (cases t) (simp_all add: error_message_def)

text \<open>
  Where the transaction id can be read, the handler does what is expected of it. Take an
  inbound message that matches no pending transaction of its source endpoint and whose
  \<^verbatim>\<open>t\<close> is absent (or otherwise falsy) or a Buffer of at least two bytes. With
  \<^verbatim>\<open>y = 'r'\<close> the node gives the error \<^verbatim>\<open>[201, 'unexpected message']\<close>, echoing \<^verbatim>\<open>t\<close>, to
  \<^verbatim>\<open>_send\<close>, which transmits it to the source endpoint when the source port passes its
  guard. With \<^verbatim>\<open>y = 'e'\<close> the node emits a warning and sends nothing.
\<close>

lemma unexpected_message_handled:
  assumes wf: "\<not> truthy (get_prop message ''t'') \<or> isBuffer (get_prop message ''t'')"
    and rd: "readTransactionId (get_prop message ''t'') = Inr transactionId"
    and un: "find_transaction st (host @ '':'' @ show_int p) transactionId = None"
  shows "onResponseOrError st host p ''r'' message =
           Done (if 0 < p \<and> p < 65535
                 then st\<lparr>log := log st @
                        [Sent host p (Obj (error_message 201 ''unexpected message'' @
                           (if truthy (get_prop message ''t'') then [(''t'', get_prop message ''t'')]
                            else [])))]\<rparr>
                 else st)
       \<and> onResponseOrError st host p ''e'' message =
           Done (st\<lparr>log := log st @ [EmitWarning (get_prop message ''e'')]\<rparr>)"
  using rd un encodable_error_message [OF wf, of 201 "''unexpected message''"]
  by (simp add: onResponseOrError_def Let_def sendError_untagged [OF wf] send_def)

lemma transactions_scenario_node: "transactions scenario_node = Map.empty"
  by (simp add: scenario_node_def DHT_def rotateSecrets_def)

lemma find_transaction_scenario_node: "find_transaction scenario_node a transactionId = None"
  by (simp add: find_transaction_def transactions_scenario_node)

lemma stray_unmatched:
  "readTransactionId (get_prop stray_response ''t'') = Inr (Some 1)"
  "find_transaction scenario_node a (Some 1) = None"
  "\<not> truthy (get_prop stray_response ''t'') \<or> isBuffer (get_prop stray_response ''t'')"
  by (simp_all add: stray_response_def find_transaction_def transactions_scenario_node)

lemma unexpected_message_handled_run:
  "onResponseOrError scenario_node ''1.2.3.4'' 6881 ''r'' stray_response =
     Done (scenario_node\<lparr>log := [Sent ''1.2.3.4'' 6881
             (Obj [(''y'', Str ''e''), (''e'', Arr [Num 201, Str ''unexpected message'']),
                   (''t'', Buf [0, 1])])]\<rparr>)
   \<and> onResponseOrError scenario_node ''1.2.3.4'' 6881 ''e'' stray_response =
     Done (scenario_node\<lparr>log := [EmitWarning Undefined]\<rparr>)"
  using unexpected_message_handled [OF stray_unmatched(3) stray_unmatched(1) stray_unmatched(2),
      where host = "''1.2.3.4''" and p = 6881]
  by (simp add: log_scenario_node error_message_def) (simp add: stray_response_def)

text \<open>
  A transaction id of fewer than two bytes makes the handler throw before it looks for
  the transaction, for a response and for an error alike.
\<close>

lemma short_transaction_id_throws:
  "get_prop message ''t'' = Buf b \<Longrightarrow> length b < 2 \<Longrightarrow>
   onResponseOrError st host p type message = Raised RangeError st"
  by (simp add: onResponseOrError_def Let_def)

text \<open>
  C6. A response or an error whose \<^verbatim>\<open>t\<close> is a single byte, arriving from
  \<^verbatim>\<open>1.2.3.4:6881\<close> at a node with no pending transaction at all, matches no pending
  transaction. The node neither sends the error \<^verbatim>\<open>[201, 'unexpected message']\<close> nor
  emits a warning: \<^verbatim>\<open>readUInt16BE\<close> at line 486 throws out of the handler, and nothing is
  sent or emitted.
\<close>

theorem unexpected_message_short_id_throws:
  "transactions scenario_node (''1.2.3.4'' @ '':'' @ show_int 6881) = None
   \<and> onResponseOrError scenario_node ''1.2.3.4'' 6881 ''r'' short_id_response
       = Raised RangeError scenario_node
   \<and> onResponseOrError scenario_node ''1.2.3.4'' 6881 ''e'' short_id_response
       = Raised RangeError scenario_node
   \<and> log scenario_node = []"
  by (simp add: onResponseOrError_def Let_def short_id_response_def
      transactions_scenario_node log_scenario_node)

lemma once_fn_inv: "once_inv st \<Longrightarrow> once_inv (once_fn st a n c)"
  by (auto simp add: once_inv_def once_fn_def call_key_def)

lemma clear_slot_calls [simp]:
  "calls (clear_slot st a n) = calls st" "fired (clear_slot st a n) = fired st"
  by (simp_all add: clear_slot_def split: option.splits)

lemma once_inv_cong: "calls st' = calls st \<Longrightarrow> fired st' = fired st \<Longrightarrow> once_inv st' = once_inv st"
  by (simp add: once_inv_def)

lemma onTimeout_inv: "once_inv st \<Longrightarrow> once_inv (onTimeout st a n)"
  unfolding onTimeout_def by (rule once_fn_inv) (simp add: once_inv_def)

lemma onResponse_inv: "once_inv st \<Longrightarrow> once_inv (onResponse st a n c)"
  unfolding onResponse_def by (rule once_fn_inv) (simp add: once_inv_def)

lemma send_calls:
  "send st host p message = Done st' \<Longrightarrow> calls st' = calls st \<and> fired st' = fired st"
  "send st host p message = Raised e st' \<Longrightarrow> calls st' = calls st \<and> fired st' = fired st"
  by (auto simp add: send_def split: jsval.splits if_splits)

lemma sendError_calls:
  "sendError st host p t code message = Done st' \<Longrightarrow> calls st' = calls st \<and> fired st' = fired st"
  "sendError st host p t code message = Raised e st' \<Longrightarrow> calls st' = calls st \<and> fired st' = fired st"
  by (auto simp add: sendError_def dest: send_calls split: option.splits sum.splits if_splits)

lemma onResponseOrError_inv:
  assumes "once_inv st"
  shows "onResponseOrError st host p type message = Done st' \<Longrightarrow> once_inv st'"
    and "onResponseOrError st host p type message = Raised e st' \<Longrightarrow> once_inv st'"
  using assms
  by (auto simp add: onResponseOrError_def Let_def onResponse_inv once_inv_def [of "st\<lparr>log := _\<rparr>"]
      dest!: sendError_calls
      split: sum.splits option.splits if_splits)
     (auto simp add: once_inv_def)

lemma getTransactionId_inv: "once_inv st \<Longrightarrow> once_inv (fst (getTransactionId st a))"
  by (simp add: getTransactionId_def Let_def once_inv_def)

lemma step_inv: "once_inv st \<Longrightarrow> once_inv (step st ev)"
  by (cases ev)
     (auto simp add: getTransactionId_inv onTimeout_inv
       dest: onResponseOrError_inv split: outcome.splits)

lemma run_inv: "once_inv st \<Longrightarrow> once_inv (foldl step st evs)"
  by (induction evs arbitrary: st) (simp_all add: step_inv)

lemma DHT_inv: "once_inv (DHT ident c1 c2)"
  by (simp add: once_inv_def DHT_def rotateSecrets_def)

lemma distinct_keys_once:
  "distinct (map f xs) \<Longrightarrow> length (filter (\<lambda>x. f x = k) xs) \<le> Suc 0"
proof (induction xs)
  case Nil
  then show ?case by simp
next
  case (Cons x xs)
  show ?case
  proof (cases "f x = k")
    case True
    with Cons.prems have "k \<notin> f ` set xs" by auto
    then have "filter (\<lambda>x. f x = k) xs = []" by (auto simp add: filter_empty_conv)
    with True show ?thesis by simp
  next
    case False
    with Cons show ?thesis by simp
  qed
qed

text \<open>
  C7. Start from a constructed node and let queries be registered, timers fire and
  responses and errors arrive in any order and number. The resolver registered under an
  address and a transaction id is invoked at most once, also when the timer fires after
  the response has arrived or the other way round.
\<close>

theorem resolver_at_most_once:
  "length (invocations (foldl step (DHT ident c1 c2) evs) a n) \<le> 1"
proof -
  have "once_inv (foldl step (DHT ident c1 c2) evs)"
    by (rule run_inv) (rule DHT_inv)
  then have "distinct (map call_key (calls (foldl step (DHT ident c1 c2) evs)))"
    by (simp add: once_inv_def)
  then have "length (filter (\<lambda>x. call_key x = (a, n)) (calls (foldl step (DHT ident c1 c2) evs))) \<le> Suc 0"
    by (rule distinct_keys_once)
  moreover have "(\<lambda>x. call_key x = (a, n)) = (\<lambda>call. fst call = a \<and> fst (snd call) = n)"
    by (auto simp add: call_key_def fun_eq_iff)
  ultimately show ?thesis by (simp add: invocations_def)
qed

text \<open>
  Two runs in which both paths are taken: the resolver is called by whichever comes first,
  the response or the timeout, and the later one is ignored.
\<close>

lemma show_int_6881: "show_int 6881 = ''6881''"
  by (simp add: show_int_def decimal.simps)

lemma fired_scenario_node: "fired scenario_node = []" "calls scenario_node = []" "timers scenario_node = []"
  by (simp_all add: scenario_node_def DHT_def rotateSecrets_def)

lemma response_then_timeout_once:
  "invocations
     (foldl step scenario_node
        [Register ''1.2.3.4:6881'',
         Inbound ''1.2.3.4'' 6881 ''r'' stray_response,
         TimerFires ''1.2.3.4:6881'' 1])
     ''1.2.3.4:6881'' 1
   = [(''1.2.3.4:6881'', 1, Reply (Obj [(''id'', Buf [9])]))]"
  by (simp add: getTransactionId_def Let_def transactions_scenario_node fired_scenario_node
      onResponseOrError_def show_int_6881 stray_response_def find_transaction_def
      onResponse_def clear_slot_def once_fn_def registered_def onTimeout_def invocations_def)

lemma timeout_then_response_once:
  "invocations
     (foldl step scenario_node
        [Register ''1.2.3.4:6881'',
         TimerFires ''1.2.3.4:6881'' 1,
         Inbound ''1.2.3.4'' 6881 ''r'' stray_response])
     ''1.2.3.4:6881'' 1
   = [(''1.2.3.4:6881'', 1, TimedOut)]"
  by (simp add: getTransactionId_def Let_def transactions_scenario_node fired_scenario_node
      onResponseOrError_def show_int_6881 stray_response_def find_transaction_def
      onResponse_def clear_slot_def once_fn_def registered_def onTimeout_def invocations_def
      sendError_def send_def)

text \<open>
  Only the first two bytes of \<^verbatim>\<open>t\<close> are read: a response whose transaction id has three
  bytes resolves the pending transaction whose id is the first two.
\<close>

lemma long_transaction_id_prefix_matched:
  "invocations
     (foldl step scenario_node
        [Register ''1.2.3.4:6881'',
         Inbound ''1.2.3.4'' 6881 ''r'' long_id_response])
     ''1.2.3.4:6881'' 1
   = [(''1.2.3.4:6881'', 1, Reply (Obj [(''id'', Buf [9])]))]"
  by (simp add: getTransactionId_def Let_def transactions_scenario_node fired_scenario_node
      onResponseOrError_def show_int_6881 long_id_response_def find_transaction_def
      onResponse_def clear_slot_def once_fn_def invocations_def)

end
